theory Spec2Isabelle
  imports Main
begin

section \<open>JavaScript values as the bridge observes them\<close>

text \<open>
  The bridge is TypeScript running on JavaScript values. A field that may be
  \<open>null\<close> or \<open>undefined\<close> is an \<open>option\<close>; the two are not distinguished, since
  the code only tests such fields for truthiness, with \<open>?.\<close> or with \<open>||\<close>.
\<close>

definition truthy :: "string option \<Rightarrow> bool" where
  \<comment> \<open>truthiness of a string-or-missing value: present and not the empty string\<close>
  "truthy v = (case v of None \<Rightarrow> False | Some s \<Rightarrow> s \<noteq> [])"

definition truthy_bool :: "bool option \<Rightarrow> bool" where
  "truthy_bool v = (case v of None \<Rightarrow> False | Some b \<Rightarrow> b)"

definition or_empty :: "string option \<Rightarrow> string" where
  \<comment> \<open>\<open>v || ''\<close>\<close>
  "or_empty v = (if truthy v then the v else [])"

definition opt_chain :: "'a option \<Rightarrow> ('a \<Rightarrow> 'b option) \<Rightarrow> 'b option" where
  \<comment> \<open>\<open>a?.f\<close>: undefined when \<open>a\<close> is missing\<close>
  "opt_chain a f = (case a of None \<Rightarrow> None | Some x \<Rightarrow> f x)"

definition endsWith :: "string \<Rightarrow> string \<Rightarrow> bool" where
  \<comment> \<open>\<open>String.prototype.endsWith\<close>\<close>
  "endsWith s suf =
     (length suf \<le> length s \<and> drop (length s - length suf) s = suf)"

section \<open>Upstream message envelopes (whatsapp.ts)\<close>

text \<open>
  The envelope handed over by the upstream library, restricted to the fields
  the bridge reads: \<open>msg.key\<close>, \<open>msg.message\<close> and \<open>msg.messageTimestamp\<close>.
\<close>

record message_key =
  fromMe :: "bool option"
  remoteJid :: "string option"
  remoteJidAlt :: "string option"
  key_id :: "string option"

record extended_text =
  ext_text :: "string option"

record media =
  caption :: "string option"

record audio =
  seconds :: nat
  ptt :: bool

record wa_content =
  conversation :: "string option"
  extendedTextMessage :: "extended_text option"
  imageMessage :: "media option"
  videoMessage :: "media option"
  documentMessage :: "media option"
  audioMessage :: "audio option"

record wa_msg =
  key :: message_key
  message :: "wa_content option"
  messageTimestamp :: "int option"

text \<open>\<open>interface InboundMessage\<close>: the record forwarded to the controllers.\<close>

record InboundMessage =
  im_id :: string
  sender :: string
  pn :: string
  content :: string
  timestamp :: "int option"
  isGroup :: bool

text \<open>
  \<open>WhatsAppClient.extractMessageContent\<close>: the chain of early returns, in the
  order of the source. \<open>None\<close> is the source's \<open>null\<close>.
\<close>

definition extractMessageContent :: "wa_msg \<Rightarrow> string option" where
  "extractMessageContent msg =
     (case message msg of
        None \<Rightarrow> None
      | Some m \<Rightarrow>
          if truthy (conversation m) then conversation m
          else if truthy (opt_chain (extendedTextMessage m) ext_text)
            then opt_chain (extendedTextMessage m) ext_text
          else if truthy (opt_chain (imageMessage m) caption)
            then Some (''[Image] '' @ the (opt_chain (imageMessage m) caption))
          else if truthy (opt_chain (videoMessage m) caption)
            then Some (''[Video] '' @ the (opt_chain (videoMessage m) caption))
          else if truthy (opt_chain (documentMessage m) caption)
            then Some (''[Document] '' @ the (opt_chain (documentMessage m) caption))
          else if audioMessage m \<noteq> None then Some ''[Voice Message]''
          else None)"

text \<open>
  The body of the loop in the \<open>messages.upsert\<close> handler, for one envelope:
  \<open>None\<close> where the source says \<open>continue\<close>, otherwise the argument of
  \<open>onMessage\<close>.
\<close>

definition upsert_one :: "wa_msg \<Rightarrow> InboundMessage option" where
  "upsert_one msg =
     (if truthy_bool (fromMe (key msg)) then None
      else if remoteJid (key msg) = Some ''status@broadcast'' then None
      else
        let content = extractMessageContent msg in
        if \<not> truthy content then None
        else
          let isGroup =
            (case remoteJid (key msg) of
               None \<Rightarrow> False
             | Some jid \<Rightarrow> endsWith jid ''@g.us'')
          in Some \<lparr> im_id = or_empty (key_id (key msg)),
                     sender = or_empty (remoteJid (key msg)),
                     pn = or_empty (remoteJidAlt (key msg)),
                     content = the content,
                     timestamp = messageTimestamp msg,
                     isGroup = isGroup \<rparr>)"

text \<open>
  The \<open>messages.upsert\<close> handler: the calls of \<open>onMessage\<close> it makes, in order.
\<close>

definition messages_upsert :: "string \<Rightarrow> wa_msg list \<Rightarrow> InboundMessage list" where
  "messages_upsert ty messages =
     (if ty \<noteq> ''notify'' then [] else List.map_filter upsert_one messages)"

subsection \<open>The extraction precedence in the words of the specification\<close>

text \<open>
  The specification describes extraction as decoding the envelope into one
  closed variant, first match winning, and rendering that variant. These two
  definitions follow the specification, not the source; they are compared with
  \<open>extractMessageContent\<close> below.
\<close>

datatype media_kind = Image | Video | Document

datatype decoded =
  Conversation string
  | ExtendedText string
  | MediaCaption media_kind string
  | Audio
  | Unrecognized

fun first_match :: "'a option list \<Rightarrow> 'a option" where
  "first_match [] = None"
| "first_match (None # cs) = first_match cs"
| "first_match (Some c # cs) = Some c"

definition nonempty :: "string option \<Rightarrow> string option" where
  "nonempty v = (case v of None \<Rightarrow> None | Some s \<Rightarrow> if s = [] then None else Some s)"

definition spec_decode :: "wa_content \<Rightarrow> decoded" where
  "spec_decode m =
     (case first_match
        [ map_option Conversation (nonempty (conversation m)),
          map_option ExtendedText
            (nonempty (Option.bind (extendedTextMessage m) ext_text)),
          map_option (MediaCaption Image)
            (nonempty (Option.bind (imageMessage m) caption)),
          map_option (MediaCaption Video)
            (nonempty (Option.bind (videoMessage m) caption)),
          map_option (MediaCaption Document)
            (nonempty (Option.bind (documentMessage m) caption)),
          map_option (\<lambda>_. Audio) (audioMessage m) ]
      of None \<Rightarrow> Unrecognized | Some d \<Rightarrow> d)"

fun kind_name :: "media_kind \<Rightarrow> string" where
  "kind_name Image = ''Image''"
| "kind_name Video = ''Video''"
| "kind_name Document = ''Document''"

fun spec_render :: "decoded \<Rightarrow> string option" where
  "spec_render (Conversation s) = Some s"
| "spec_render (ExtendedText s) = Some s"
| "spec_render (MediaCaption k c) = Some (''['' @ kind_name k @ ''] '' @ c)"
| "spec_render Audio = Some ''[Voice Message]''"
| "spec_render Unrecognized = None"

definition spec_extract :: "wa_msg \<Rightarrow> string option" where
  "spec_extract msg =
     (case message msg of None \<Rightarrow> None | Some m \<Rightarrow> spec_render (spec_decode m))"

subsection \<open>Sample envelopes\<close>

definition sample_key :: message_key where
  "sample_key = \<lparr> fromMe = Some False, remoteJid = Some ''4912345@s.whatsapp.net'',
                   remoteJidAlt = None, key_id = Some ''3EB0A1'' \<rparr>"

definition empty_content :: wa_content where
  "empty_content = \<lparr> conversation = None, extendedTextMessage = None,
                      imageMessage = None, videoMessage = None,
                      documentMessage = None, audioMessage = None \<rparr>"

definition voice_note :: audio where
  "voice_note = \<lparr> seconds = 7, ptt = True \<rparr>"

definition voice_with_text :: wa_msg where
  \<comment> \<open>a voice field, no caption anywhere, and a plain text beside it\<close>
  "voice_with_text =
     \<lparr> key = sample_key,
       message = Some (empty_content \<lparr> conversation := Some ''hi'',
                                       audioMessage := Some voice_note \<rparr>),
       messageTimestamp = Some 1700000000 \<rparr>"

definition voice_only :: wa_msg where
  \<comment> \<open>a voice field beside an image field that carries no caption\<close>
  "voice_only =
     \<lparr> key = sample_key,
       message = Some (empty_content \<lparr> imageMessage := Some \<lparr> caption = None \<rparr>,
                                       audioMessage := Some voice_note \<rparr>),
       messageTimestamp = Some 1700000000 \<rparr>"

definition own_text :: wa_msg where
  \<comment> \<open>a text sent by the session's own account\<close>
  "own_text =
     \<lparr> key = sample_key \<lparr> fromMe := Some True \<rparr>,
       message = Some (empty_content \<lparr> conversation := Some ''hello'' \<rparr>),
       messageTimestamp = Some 1700000000 \<rparr>"

definition sticker_only :: wa_msg where
  \<comment> \<open>an envelope whose content is of a kind the bridge does not read\<close>
  "sticker_only =
     \<lparr> key = sample_key, message = Some empty_content,
       messageTimestamp = Some 1700000000 \<rparr>"

definition bare_text :: wa_msg where
  \<comment> \<open>a text whose key carries no id and no addresses\<close>
  "bare_text =
     \<lparr> key = \<lparr> fromMe = None, remoteJid = None, remoteJidAlt = None,
               key_id = None \<rparr>,
       message = Some (empty_content \<lparr> conversation := Some ''hello'' \<rparr>),
       messageTimestamp = None \<rparr>"

definition group_text :: wa_msg where
  \<comment> \<open>a text in a group conversation, with an alternate address\<close>
  "group_text =
     \<lparr> key = \<lparr> fromMe = Some False, remoteJid = Some ''120363041@g.us'',
               remoteJidAlt = Some ''4912345@s.whatsapp.net'',
               key_id = Some ''3EB0A2'' \<rparr>,
       message = Some (empty_content \<lparr> conversation := Some ''hello'' \<rparr>),
       messageTimestamp = Some 1700000000 \<rparr>"

section \<open>The session: connect, closures and the reconnect timer (whatsapp.ts)\<close>

text \<open>
  The calls the client makes on the callbacks it was constructed with
  (\<open>options.onQR\<close>, \<open>options.onStatus\<close>, \<open>options.onMessage\<close>).
\<close>

datatype callback = OnQR string | OnStatus string | OnMessage InboundMessage

text \<open>
  The payload of a \<open>connection.update\<close> event, as the handler destructures it:
  \<open>connection\<close>, the status code reached through
  \<open>lastDisconnect?.error?.output?.statusCode\<close>, and \<open>qr\<close>.
\<close>

datatype connection = ConnClose | ConnOpen | ConnConnecting

record connection_update =
  connection :: "connection option"
  statusCode :: "int option"
  qr :: "string option"

definition loggedOut :: int where
  \<comment> \<open>\<open>DisconnectReason.loggedOut\<close> of the upstream library\<close>
  "loggedOut = 401"

text \<open>
  The client object and the part of the world it acts on. \<open>sock\<close> and
  \<open>reconnecting\<close> are the fields of \<open>WhatsAppClient\<close>. An upstream socket is
  identified by the number of sockets made before it; \<open>created\<close> counts the
  calls of \<open>makeWASocket\<close>, \<open>ended\<close> lists the sockets on which \<open>end\<close> was
  called, \<open>timers\<close> holds the due time of every pending \<open>setTimeout\<close>
  callback, \<open>now\<close> is the clock in milliseconds and \<open>emitted\<close> the callback
  calls made so far, oldest first.
\<close>

record wa_client =
  sock :: "nat option"
  reconnecting :: bool
  created :: nat
  ended :: "nat list"
  timers :: "nat list"
  now :: nat
  emitted :: "callback list"

definition new_client :: wa_client where
  "new_client = \<lparr> sock = None, reconnecting = False, created = 0, ended = [],
                   timers = [], now = 0, emitted = [] \<rparr>"

definition emit :: "callback \<Rightarrow> wa_client \<Rightarrow> wa_client" where
  "emit cb c = c \<lparr> emitted := emitted c @ [cb] \<rparr>"

text \<open>
  \<open>WhatsAppClient.connect\<close>: makes a new upstream socket and stores it in
  \<open>this.sock\<close>; there is no test of the current socket or state before. The
  handlers it registers on the new socket are \<open>on_connection_update\<close> and
  \<open>messages_upsert\<close> below. The awaited reads of the credentials and of the
  protocol version are taken to resolve.
\<close>

definition connect :: "wa_client \<Rightarrow> wa_client" where
  "connect c = c \<lparr> sock := Some (created c), created := Suc (created c) \<rparr>"

definition timer_callback :: "wa_client \<Rightarrow> wa_client" where
  \<comment> \<open>the function given to \<open>setTimeout\<close>\<close>
  "timer_callback c = connect (c \<lparr> reconnecting := False \<rparr>)"

definition on_connection_update :: "connection_update \<Rightarrow> wa_client \<Rightarrow> wa_client" where
  "on_connection_update u c =
     (let c1 = (if truthy (qr u) then emit (OnQR (the (qr u))) c else c) in
      if connection u = Some ConnClose then
        let shouldReconnect = (statusCode u \<noteq> Some loggedOut);
            c2 = emit (OnStatus ''disconnected'') c1
        in if shouldReconnect \<and> \<not> reconnecting c2
           then c2 \<lparr> reconnecting := True,
                     timers := timers c2 @ [now c2 + 5000] \<rparr>
           else c2
      else if connection u = Some ConnOpen then emit (OnStatus ''connected'') c1
      else c1)"

definition disconnect :: "wa_client \<Rightarrow> wa_client" where
  "disconnect c =
     (case sock c of
        None \<Rightarrow> c
      | Some k \<Rightarrow> c \<lparr> ended := ended c @ [k], sock := None \<rparr>)"

text \<open>
  Time passing: the clock moves on by \<open>d\<close> milliseconds and every timer that
  has become due runs its callback.
\<close>

definition advance :: "nat \<Rightarrow> wa_client \<Rightarrow> wa_client" where
  "advance d c =
     (let t = now c + d;
          due = filter (\<lambda>x. x \<le> t) (timers c);
          rest = filter (\<lambda>x. t < x) (timers c)
      in fold (\<lambda>_. timer_callback) due (c \<lparr> now := t, timers := rest \<rparr>))"

text \<open>
  What can happen to the client: a call of \<open>connect\<close> or \<open>disconnect\<close>, an
  event of an upstream socket, or time passing. The two event handlers exist
  only once \<open>connect\<close> has registered them on a socket.
\<close>

datatype event =
  Connect
  | Disconnect
  | ConnectionUpdate connection_update
  | MessagesUpsert string "wa_msg list"
  | Advance nat

fun step :: "event \<Rightarrow> wa_client \<Rightarrow> wa_client" where
  "step Connect c = connect c"
| "step Disconnect c = disconnect c"
| "step (ConnectionUpdate u) c =
     (if created c = 0 then c else on_connection_update u c)"
| "step (MessagesUpsert ty ms) c =
     (if created c = 0 then c
      else c \<lparr> emitted := emitted c @ map OnMessage (messages_upsert ty ms) \<rparr>)"
| "step (Advance d) c = advance d c"

fun run :: "wa_client \<Rightarrow> event list \<Rightarrow> wa_client" where
  "run c [] = c"
| "run c (e # es) = run (step e c) es"

definition closure :: "int option \<Rightarrow> connection_update" where
  \<comment> \<open>the update of a closed connection with the given status code\<close>
  "closure code = \<lparr> connection = Some ConnClose, statusCode = code, qr = None \<rparr>"

definition opened :: connection_update where
  "opened = \<lparr> connection = Some ConnOpen, statusCode = None, qr = None \<rparr>"

fun last_status :: "callback list \<Rightarrow> string option" where
  \<comment> \<open>the status most recently reported through \<open>onStatus\<close>\<close>
  "last_status [] = None"
| "last_status (cb # cbs) =
     (case last_status cbs of
        Some s \<Rightarrow> Some s
      | None \<Rightarrow> (case cb of OnStatus s \<Rightarrow> Some s | _ \<Rightarrow> None))"

definition is_transient_closure :: "event \<Rightarrow> bool" where
  "is_transient_closure e =
     (case e of
        ConnectionUpdate u \<Rightarrow>
          connection u = Some ConnClose \<and> statusCode u \<noteq> Some loggedOut
      | _ \<Rightarrow> False)"

definition quiet :: "event \<Rightarrow> bool" where
  \<comment> \<open>neither a call of \<open>connect\<close> nor a closure that is not a logout\<close>
  "quiet e = (e \<noteq> Connect \<and> \<not> is_transient_closure e)"

definition retry_guard :: "wa_client \<Rightarrow> bool" where
  \<comment> \<open>the flag is set exactly while one timer is pending, due within 5 s\<close>
  "retry_guard c =
     (if reconnecting c
      then length (timers c) = 1
           \<and> list_all (\<lambda>t. now c < t \<and> t \<le> now c + 5000) (timers c)
      else timers c = [])"

section \<open>The relay server (server.ts)\<close>

text \<open>
  A value produced by \<open>JSON.parse\<close>. A number is kept as its decimal
  rendering, which is all the bridge ever observes of it.
\<close>

datatype json =
  JNull
  | JBool bool
  | JNum string
  | JStr string
  | JArr "json list"
  | JObj "(string \<times> json) list"

text \<open>
  Reading one of the properties \<open>type\<close>, \<open>to\<close>, \<open>text\<close> of a parsed value
  other than \<open>null\<close>: \<open>None\<close> is \<open>undefined\<close>. Of a repeated key the last
  occurrence counts; strings, numbers, booleans and arrays have none of the
  three properties.
\<close>

fun get_prop :: "json \<Rightarrow> string \<Rightarrow> json option" where
  "get_prop (JObj kvs) k = map_of (rev kvs) k"
| "get_prop _ k = None"

fun join :: "string \<Rightarrow> string list \<Rightarrow> string" where
  "join sep [] = []"
| "join sep [x] = x"
| "join sep (x # y # ys) = x @ sep @ join sep (y # ys)"

text \<open>A thrown error, by name and message, and \<open>String(error)\<close>.\<close>

datatype js_error = JsError string string

definition primitive_type_error :: js_error where
  \<comment> \<open>an object that neither \<open>toString\<close> nor \<open>valueOf\<close> turns into a primitive\<close>
  "primitive_type_error =
     JsError ''TypeError'' ''Cannot convert object to primitive value''"

text \<open>
  The string conversion a template literal applies to a parsed value;
  \<open>Inl\<close> is the error thrown. An object is converted by its \<open>toString\<close>
  property. Without an own key of that name this is the inherited method,
  which returns \<open>[object Object]\<close>. An own key \<open>toString\<close> hides it
  and holds a parsed value, which is not callable; \<open>valueOf\<close>, own or
  inherited, gives no primitive either, and the conversion throws. An array
  is converted by joining the conversions of its elements with commas,
  \<open>null\<close> counting as the empty string, and throws where an element's
  conversion throws.
\<close>

fun join_results :: "(js_error + string) list \<Rightarrow> js_error + string list" where
  "join_results [] = Inr []"
| "join_results (Inl e # rs) = Inl e"
| "join_results (Inr s # rs) =
     (case join_results rs of Inl e \<Rightarrow> Inl e | Inr ss \<Rightarrow> Inr (s # ss))"

fun to_string :: "json \<Rightarrow> js_error + string" where
  "to_string JNull = Inr ''null''"
| "to_string (JBool b) = Inr (if b then ''true'' else ''false'')"
| "to_string (JNum r) = Inr r"
| "to_string (JStr s) = Inr s"
| "to_string (JArr xs) =
     (case join_results (map (\<lambda>x. if x = JNull then Inr [] else to_string x) xs) of
        Inl e \<Rightarrow> Inl e
      | Inr ss \<Rightarrow> Inr (join '','' ss))"
| "to_string (JObj kvs) =
     (if ''toString'' \<in> set (map fst kvs) then Inl primitive_type_error
      else Inr ''[object Object]'')"

definition template :: "json option \<Rightarrow> js_error + string" where
  "template v = (case v of None \<Rightarrow> Inr ''undefined'' | Some x \<Rightarrow> to_string x)"

text \<open>
  The parsed values whose conversion throws: an object with an own key
  \<open>toString\<close>, or an array that holds such a value.
\<close>

fun unrenderable :: "json \<Rightarrow> bool" where
  "unrenderable (JObj kvs) = (''toString'' \<in> set (map fst kvs))"
| "unrenderable (JArr xs) = list_ex unrenderable xs"
| "unrenderable _ = False"

fun error_string :: "js_error \<Rightarrow> string" where
  "error_string (JsError name msg) =
     (if name = [] then msg else if msg = [] then name else name @ '': '' @ msg)"

definition null_type_error :: js_error where
  \<comment> \<open>reading \<open>cmd.type\<close> of \<open>null\<close>\<close>
  "null_type_error =
     JsError ''TypeError'' ''Cannot read properties of null (reading 'type')''"

text \<open>
  The objects the bridge serialises, by their \<open>type\<close> field, and a frame:
  the text \<open>JSON.stringify\<close> returns for an object, represented by that
  object.
\<close>

datatype js_obj =
  MessageObj InboundMessage
  | QrObj string
  | StatusObj string
  | ErrorObj string
  | SentObj "json option"

datatype frame = Frame js_obj

type_synonym conn = nat

datatype ready_state = CONNECTING | OPEN | CLOSING | CLOSED

text \<open>
  What a handler does to the outside, in order: a call of \<open>JSON.stringify\<close>,
  a \<open>send\<close> on a controller connection, a \<open>sendMessage\<close> on an upstream
  socket.
\<close>

datatype effect =
  Serialize js_obj
  | WsSend conn frame
  | UpstreamSend nat "json option" "json option"

text \<open>
  The upstream library's answer to \<open>sock.sendMessage\<close>: \<open>None\<close> when the
  promise resolves, the error when it rejects.
\<close>

type_synonym upstream = "nat \<Rightarrow> json option \<Rightarrow> json option \<Rightarrow> js_error option"

text \<open>\<open>WhatsAppClient.sendMessage\<close>: \<open>Inl\<close> is the error thrown.\<close>

definition sendMessage ::
  "wa_client \<Rightarrow> upstream \<Rightarrow> json option \<Rightarrow> json option \<Rightarrow> (js_error + unit) \<times> effect list"
where
  "sendMessage c up to txt =
     (case sock c of
        None \<Rightarrow> (Inl (JsError ''Error'' ''Not connected''), [])
      | Some k \<Rightarrow>
          (case up k to txt of
             Some e \<Rightarrow> (Inl e, [UpstreamSend k to txt])
           | None \<Rightarrow> (Inr (), [UpstreamSend k to txt])))"

text \<open>
  The server object: \<open>wa\<close>, and \<open>clients\<close>, a \<open>Set\<close> of connections kept in
  insertion order. \<open>readyState\<close> is the state of each connection's transport.
\<close>

record server =
  wa :: "wa_client option"
  clients :: "conn list"
  readyState :: "conn \<Rightarrow> ready_state"

definition set_add :: "conn \<Rightarrow> conn list \<Rightarrow> conn list" where
  \<comment> \<open>\<open>Set.prototype.add\<close>\<close>
  "set_add ws cs = (if ws \<in> set cs then cs else cs @ [ws])"

definition set_delete :: "conn \<Rightarrow> conn list \<Rightarrow> conn list" where
  \<comment> \<open>\<open>Set.prototype.delete\<close>\<close>
  "set_delete ws cs = removeAll ws cs"

definition on_connection :: "conn \<Rightarrow> server \<Rightarrow> server" where
  "on_connection ws srv = srv \<lparr> clients := set_add ws (clients srv) \<rparr>"

definition on_close :: "conn \<Rightarrow> server \<Rightarrow> server" where
  "on_close ws srv = srv \<lparr> clients := set_delete ws (clients srv) \<rparr>"

definition on_error :: "conn \<Rightarrow> server \<Rightarrow> server" where
  "on_error ws srv = srv \<lparr> clients := set_delete ws (clients srv) \<rparr>"

definition ws_send :: "conn \<Rightarrow> js_obj \<Rightarrow> effect list" where
  \<comment> \<open>\<open>ws.send(JSON.stringify(obj))\<close>\<close>
  "ws_send ws obj = [Serialize obj, WsSend ws (Frame obj)]"

text \<open>
  \<open>BridgeServer.broadcast\<close>: the server after the call and what the call did.
\<close>

definition broadcast :: "server \<Rightarrow> js_obj \<Rightarrow> server \<times> effect list" where
  "broadcast srv event =
     (let data = Frame event in
      (srv, Serialize event #
            map (\<lambda>client. WsSend client data)
              (filter (\<lambda>client. readyState srv client = OPEN) (clients srv))))"

text \<open>The callbacks \<open>start\<close> gives to the client: each broadcasts one object.\<close>

fun wire :: "callback \<Rightarrow> js_obj" where
  "wire (OnMessage msg) = MessageObj msg"
| "wire (OnQR q) = QrObj q"
| "wire (OnStatus status) = StatusObj status"

text \<open>\<open>BridgeServer.handleCommand\<close>: \<open>Inl\<close> is the error thrown.\<close>

definition handleCommand ::
  "server \<Rightarrow> upstream \<Rightarrow> json \<Rightarrow> conn \<Rightarrow> (js_error + unit) \<times> effect list"
where
  "handleCommand srv up cmd ws =
     (if cmd = JNull then (Inl null_type_error, [])
      else if get_prop cmd ''type'' \<noteq> Some (JStr ''send'') then
        (case template (get_prop cmd ''type'') of
           Inl e \<Rightarrow> (Inl e, [])
         | Inr ty \<Rightarrow>
             (Inr (), ws_send ws (ErrorObj (''unknown command type: '' @ ty))))
      else
        (case wa srv of
           None \<Rightarrow> (Inr (), ws_send ws (ErrorObj ''WhatsApp not connected''))
         | Some c \<Rightarrow>
             (case sendMessage c up (get_prop cmd ''to'') (get_prop cmd ''text'') of
                (Inl e, effs) \<Rightarrow> (Inl e, effs)
              | (Inr _, effs) \<Rightarrow>
                  (Inr (), effs @ ws_send ws (SentObj (get_prop cmd ''to''))))))"

text \<open>
  The \<open>message\<close> handler of a connection. The frame comes as the outcome of
  \<open>JSON.parse\<close> on its text: the message of the \<open>SyntaxError\<close> thrown, or the
  value parsed.
\<close>

datatype parse_outcome = ParseError string | Parsed json

definition on_message :: "server \<Rightarrow> upstream \<Rightarrow> conn \<Rightarrow> parse_outcome \<Rightarrow> effect list" where
  "on_message srv up ws data =
     (case data of
        ParseError msg \<Rightarrow>
          ws_send ws (ErrorObj (error_string (JsError ''SyntaxError'' msg)))
      | Parsed cmd \<Rightarrow>
          (case handleCommand srv up cmd ws of
             (Inl e, effs) \<Rightarrow> effs @ ws_send ws (ErrorObj (error_string e))
           | (Inr _, effs) \<Rightarrow> effs))"

definition writes_to :: "conn \<Rightarrow> effect list \<Rightarrow> frame list" where
  \<comment> \<open>the frames written to one connection\<close>
  "writes_to c effs =
     concat (map (\<lambda>e. case e of WsSend c' f \<Rightarrow> (if c' = c then [f] else []) | _ \<Rightarrow> []) effs)"

definition serializations :: "effect list \<Rightarrow> js_obj list" where
  "serializations effs =
     concat (map (\<lambda>e. case e of Serialize obj \<Rightarrow> [obj] | _ \<Rightarrow> []) effs)"

definition upstream_sends :: "effect list \<Rightarrow> effect list" where
  "upstream_sends effs =
     filter (\<lambda>e. case e of UpstreamSend _ _ _ \<Rightarrow> True | _ \<Rightarrow> False) effs"

subsection \<open>Sample servers and commands\<close>

definition accepting :: upstream where
  \<comment> \<open>an upstream that accepts every message\<close>
  "accepting = (\<lambda>_ _ _. None)"

definition closed_session :: wa_client where
  \<comment> \<open>connected, then closed by the upstream with status 428\<close>
  "closed_session =
     run new_client [Connect, ConnectionUpdate opened,
                     ConnectionUpdate (closure (Some 428))]"

definition three_and_one :: server where
  \<comment> \<open>three open controller connections and one that is closing\<close>
  "three_and_one =
     \<lparr> wa = Some (run new_client [Connect, ConnectionUpdate opened]),
       clients = [1, 2, 3, 4],
       readyState = (\<lambda>c. if c = 4 then CLOSING else OPEN) \<rparr>"

definition closed_server :: server where
  \<comment> \<open>one controller connection; the upstream has closed the session\<close>
  "closed_server =
     \<lparr> wa = Some closed_session, clients = [1], readyState = (\<lambda>_. OPEN) \<rparr>"

definition fresh_server :: server where
  \<comment> \<open>one controller connection; \<open>connect\<close> has not been called yet\<close>
  "fresh_server =
     \<lparr> wa = Some new_client, clients = [1], readyState = (\<lambda>_. OPEN) \<rparr>"

definition send_cmd :: json where
  "send_cmd = JObj [(''type'', JStr ''send''), (''to'', JStr ''4912345@s.whatsapp.net''),
                    (''text'', JStr ''hello'')]"

definition ping_cmd :: json where
  "ping_cmd = JObj [(''type'', JStr ''ping'')]"

definition list_type_cmd :: json where
  \<comment> \<open>a command whose type is an array\<close>
  "list_type_cmd = JObj [(''type'', JArr [JNum ''1'', JNull, JStr ''a'', JObj []])]"

definition hidden_toString_cmd :: json where
  \<comment> \<open>a command whose type is an object with an own key \<open>toString\<close>\<close>
  "hidden_toString_cmd = JObj [(''type'', JObj [(''toString'', JNum ''1'')])]"

definition hello_msg :: InboundMessage where
  "hello_msg = \<lparr> im_id = ''3EB0A1'', sender = ''4912345@s.whatsapp.net'', pn = [],
                  content = ''hello'', timestamp = Some 1700000000, isGroup = False \<rparr>"

section \<open>Properties of the normalizer\<close>

lemma nonempty_truthy: "truthy v \<Longrightarrow> nonempty v = v"
  by (cases v) (simp_all add: truthy_def nonempty_def)

lemma nonempty_falsy: "\<not> truthy v \<Longrightarrow> nonempty v = None"
  by (cases v) (simp_all add: truthy_def nonempty_def)

lemma opt_chain_bind: "opt_chain a f = Option.bind a f"
  by (cases a) (simp_all add: opt_chain_def)

lemma truthy_the: "truthy v \<Longrightarrow> v = Some (the v)"
  by (cases v) (simp_all add: truthy_def)

lemma first_match_hit:
  "truthy v \<Longrightarrow> first_match (map_option f (nonempty v) # cs) = Some (f (the v))"
  by (cases v) (simp_all add: truthy_def nonempty_def)

lemma first_match_miss:
  "\<not> truthy v \<Longrightarrow> first_match (map_option f (nonempty v) # cs) = first_match cs"
  by (cases v) (simp_all add: truthy_def nonempty_def)

lemma extract_refines: "extractMessageContent msg = spec_extract msg"
proof (cases "message msg")
  case None
  then show ?thesis by (simp add: extractMessageContent_def spec_extract_def)
next
  case (Some m)
  let ?c = "conversation m"
  let ?e = "Option.bind (extendedTextMessage m) ext_text"
  let ?i = "Option.bind (imageMessage m) caption"
  let ?v = "Option.bind (videoMessage m) caption"
  let ?d = "Option.bind (documentMessage m) caption"
  consider (conv) "truthy ?c"
    | (ext) "\<not> truthy ?c" "truthy ?e"
    | (img) "\<not> truthy ?c" "\<not> truthy ?e" "truthy ?i"
    | (vid) "\<not> truthy ?c" "\<not> truthy ?e" "\<not> truthy ?i" "truthy ?v"
    | (doc) "\<not> truthy ?c" "\<not> truthy ?e" "\<not> truthy ?i" "\<not> truthy ?v" "truthy ?d"
    | (rest) "\<not> truthy ?c" "\<not> truthy ?e" "\<not> truthy ?i" "\<not> truthy ?v" "\<not> truthy ?d"
    by blast
  then show ?thesis
  proof cases
    case conv
    then show ?thesis using Some truthy_the [OF conv]
      by (simp add: extractMessageContent_def spec_extract_def spec_decode_def
          first_match_hit)
  next
    case ext
    then show ?thesis using Some truthy_the [OF ext(2)]
      by (simp add: extractMessageContent_def spec_extract_def spec_decode_def
          opt_chain_bind first_match_hit first_match_miss)
  next
    case img
    then show ?thesis using Some
      by (simp add: extractMessageContent_def spec_extract_def spec_decode_def
          opt_chain_bind first_match_hit first_match_miss)
  next
    case vid
    then show ?thesis using Some
      by (simp add: extractMessageContent_def spec_extract_def spec_decode_def
          opt_chain_bind first_match_hit first_match_miss)
  next
    case doc
    then show ?thesis using Some
      by (simp add: extractMessageContent_def spec_extract_def spec_decode_def
          opt_chain_bind first_match_hit first_match_miss)
  next
    case rest
    then show ?thesis using Some
      by (cases "audioMessage m")
        (simp_all add: extractMessageContent_def spec_extract_def spec_decode_def
          opt_chain_bind first_match_hit first_match_miss)
  qed
qed

lemma upsert_one_no_content:
  "extractMessageContent msg = None \<Longrightarrow> upsert_one msg = None"
  by (simp add: upsert_one_def truthy_def)

text \<open>
  Claim C4. Extraction is by first match in the order plain text, extended
  text, image caption, video caption, document caption, voice placeholder:
  the source's chain of returns computes exactly the decoding and rendering
  of the specification, with the tags \<open>[Image] \<close>, \<open>[Video] \<close> and
  \<open>[Document] \<close> before a caption and \<open>[Voice Message]\<close> for a voice
  message. An envelope that matches none of them yields nothing, and the
  handler then forwards nothing for it.
\<close>

theorem extraction_precedence:
  "extractMessageContent msg = spec_extract msg
   \<and> spec_render (MediaCaption Image cap) = Some (''[Image] '' @ cap)
   \<and> spec_render (MediaCaption Video cap) = Some (''[Video] '' @ cap)
   \<and> spec_render (MediaCaption Document cap) = Some (''[Document] '' @ cap)
   \<and> spec_render Audio = Some ''[Voice Message]''
   \<and> (spec_extract msg = None \<longrightarrow> upsert_one msg = None)"
  using extract_refines [of msg] upsert_one_no_content [of msg] by simp

text \<open>
  The envelope without any readable content is dropped.
\<close>

theorem extraction_precedence_witness:
  "spec_extract sticker_only = None \<and> extractMessageContent sticker_only = None
   \<and> upsert_one sticker_only = None"
proof -
  have h: "spec_extract sticker_only = None"
    by (simp add: spec_extract_def spec_decode_def sticker_only_def
        empty_content_def nonempty_def)
  show ?thesis using h extraction_precedence [of sticker_only] by simp
qed

lemma map_filter_drop:
  "f x = None \<Longrightarrow> List.map_filter f (pre @ x # post) = List.map_filter f (pre @ post)"
  by (simp add: List.map_filter_def)

text \<open>
  Claim C5. An envelope sent by the session's own account, or addressed to
  \<open>status@broadcast\<close>, is forwarded by no call of \<open>onMessage\<close>, whatever its
  content is: the two tests stand before the extraction, so replacing the
  content changes nothing, and the handler's output for a batch is the output
  for the batch without that envelope.
\<close>

theorem own_and_broadcast_dropped:
  assumes "truthy_bool (fromMe (key msg)) \<or> remoteJid (key msg) = Some ''status@broadcast''"
  shows "upsert_one msg = None
    \<and> (\<forall>body. upsert_one (msg \<lparr> message := body \<rparr>) = None)
    \<and> messages_upsert ty (pre @ msg # post) = messages_upsert ty (pre @ post)"
proof -
  have a: "upsert_one msg = None" using assms by (auto simp: upsert_one_def)
  have b: "\<forall>body. upsert_one (msg \<lparr> message := body \<rparr>) = None"
    using assms by (auto simp: upsert_one_def)
  have c: "messages_upsert ty (pre @ msg # post) = messages_upsert ty (pre @ post)"
    using a by (simp add: messages_upsert_def map_filter_drop)
  from a b c show ?thesis by blast
qed

text \<open>
  An own message with an extractable text is dropped.
\<close>

theorem own_and_broadcast_dropped_witness:
  "truthy_bool (fromMe (key own_text))
   \<and> extractMessageContent own_text = Some ''hello''
   \<and> upsert_one own_text = None
   \<and> messages_upsert ''notify'' [voice_only, own_text] = messages_upsert ''notify'' [voice_only]"
proof -
  have h: "truthy_bool (fromMe (key own_text))"
    by (simp add: own_text_def sample_key_def truthy_bool_def)
  have e: "extractMessageContent own_text = Some ''hello''"
    by (simp add: own_text_def empty_content_def extractMessageContent_def truthy_def)
  show ?thesis
    using h e own_and_broadcast_dropped [of own_text "''notify''" "[voice_only]" "[]"]
    by simp
qed

text \<open>
  Claim C9 as stated fails: an envelope with a voice field and no caption, but
  with a plain text beside it, yields the text and not the placeholder, since
  the text branches come first.
\<close>

theorem voice_with_text_counterexample:
  "audioMessage (the (message voice_with_text)) = Some voice_note
   \<and> imageMessage (the (message voice_with_text)) = None
   \<and> videoMessage (the (message voice_with_text)) = None
   \<and> documentMessage (the (message voice_with_text)) = None
   \<and> extractMessageContent voice_with_text = Some ''hi''
   \<and> map content (messages_upsert ''notify'' [voice_with_text]) = [''hi'']"
  by (simp add: voice_with_text_def empty_content_def extractMessageContent_def
      truthy_def opt_chain_def messages_upsert_def List.map_filter_def upsert_one_def
      sample_key_def truthy_bool_def or_empty_def endsWith_def)

text \<open>
  Claim C9, amended. An envelope with a voice field, no caption and neither a
  plain text nor an extended text yields exactly \<open>[Voice Message]\<close>, whatever
  its remaining fields are.
\<close>

theorem voice_placeholder:
  assumes "message msg = Some m" and "audioMessage m \<noteq> None"
    and "\<not> truthy (opt_chain (imageMessage m) caption)"
    and "\<not> truthy (opt_chain (videoMessage m) caption)"
    and "\<not> truthy (opt_chain (documentMessage m) caption)"
    and "\<not> truthy (conversation m)"
    and "\<not> truthy (opt_chain (extendedTextMessage m) ext_text)"
  shows "extractMessageContent msg = Some ''[Voice Message]''"
  using assms by (simp add: extractMessageContent_def)

text \<open>
  A voice message beside a caption-less image field.
\<close>

theorem voice_placeholder_witness:
  "extractMessageContent voice_only = Some ''[Voice Message]''
   \<and> map content (messages_upsert ''notify'' [voice_only]) = [''[Voice Message]'']"
proof -
  have "extractMessageContent voice_only = Some ''[Voice Message]''"
    by (rule voice_placeholder [where m = "the (message voice_only)"])
      (simp_all add: voice_only_def empty_content_def truthy_def opt_chain_def)
  then show ?thesis
    by (simp add: messages_upsert_def List.map_filter_def upsert_one_def
      voice_only_def sample_key_def truthy_bool_def truthy_def or_empty_def endsWith_def)
qed

lemma endsWith_iff: "endsWith s suf \<longleftrightarrow> (\<exists>p. s = p @ suf)"
proof
  assume "endsWith s suf"
  then have "s = take (length s - length suf) s @ suf"
    by (metis append_take_drop_id endsWith_def)
  then show "\<exists>p. s = p @ suf" ..
next
  assume "\<exists>p. s = p @ suf"
  then show "endsWith s suf" by (auto simp: endsWith_def)
qed

lemma or_empty_case: "or_empty v = (case v of None \<Rightarrow> [] | Some s \<Rightarrow> s)"
  by (cases v) (simp_all add: or_empty_def truthy_def)

lemma extract_nonempty: "extractMessageContent msg = Some s \<Longrightarrow> s \<noteq> []"
  by (auto simp: extractMessageContent_def truthy_def split: option.splits if_splits)

lemma upsert_one_emits:
  assumes "\<not> truthy_bool (fromMe (key msg))"
    and "remoteJid (key msg) \<noteq> Some ''status@broadcast''"
    and "extractMessageContent msg = Some c"
  shows "upsert_one msg =
     Some \<lparr> im_id = or_empty (key_id (key msg)),
            sender = or_empty (remoteJid (key msg)),
            pn = or_empty (remoteJidAlt (key msg)),
            content = c,
            timestamp = messageTimestamp msg,
            isGroup = (case remoteJid (key msg) of
                         None \<Rightarrow> False
                       | Some jid \<Rightarrow> endsWith jid ''@g.us'') \<rparr>"
proof -
  have "truthy (extractMessageContent msg)"
    using assms(3) extract_nonempty [OF assms(3)] by (simp add: truthy_def)
  then show ?thesis
    using assms unfolding upsert_one_def Let_def by simp
qed

text \<open>
  Claim C10. An envelope that is not the account's own, is not addressed to
  \<open>status@broadcast\<close> and yields a content is forwarded, as one record. In
  that record the id, the sender and the alternate address are the envelope's
  values, or the empty string where the envelope has none; \<open>isGroup\<close> holds
  exactly when the conversation address is present and ends in \<open>@g.us\<close>, so
  it is false when the address is absent or lacks the suffix; the content is
  the extracted text, which is not empty; and the timestamp is the envelope's.
\<close>

theorem inbound_message_total:
  assumes "\<not> truthy_bool (fromMe (key msg))"
    and "remoteJid (key msg) \<noteq> Some ''status@broadcast''"
    and "extractMessageContent msg = Some c"
  shows "\<exists>im. upsert_one msg = Some im
    \<and> messages_upsert ''notify'' [msg] = [im]
    \<and> im_id im = (case key_id (key msg) of None \<Rightarrow> [] | Some s \<Rightarrow> s)
    \<and> sender im = (case remoteJid (key msg) of None \<Rightarrow> [] | Some s \<Rightarrow> s)
    \<and> pn im = (case remoteJidAlt (key msg) of None \<Rightarrow> [] | Some s \<Rightarrow> s)
    \<and> (isGroup im \<longleftrightarrow> (\<exists>p. remoteJid (key msg) = Some (p @ ''@g.us'')))
    \<and> content im = c \<and> c \<noteq> []
    \<and> timestamp im = messageTimestamp msg"
proof -
  let ?im = "\<lparr> im_id = or_empty (key_id (key msg)),
            sender = or_empty (remoteJid (key msg)),
            pn = or_empty (remoteJidAlt (key msg)),
            content = c,
            timestamp = messageTimestamp msg,
            isGroup = (case remoteJid (key msg) of
                         None \<Rightarrow> False
                       | Some jid \<Rightarrow> endsWith jid ''@g.us'') \<rparr>"
  have u: "upsert_one msg = Some ?im" by (rule upsert_one_emits [OF assms])
  have m: "messages_upsert ''notify'' [msg] = [?im]"
    by (simp add: messages_upsert_def List.map_filter_def u)
  have g: "isGroup ?im \<longleftrightarrow> (\<exists>p. remoteJid (key msg) = Some (p @ ''@g.us''))"
    by (cases "remoteJid (key msg)") (simp_all add: endsWith_iff)
  have f: "im_id ?im = (case key_id (key msg) of None \<Rightarrow> [] | Some s \<Rightarrow> s)"
    "sender ?im = (case remoteJid (key msg) of None \<Rightarrow> [] | Some s \<Rightarrow> s)"
    "pn ?im = (case remoteJidAlt (key msg) of None \<Rightarrow> [] | Some s \<Rightarrow> s)"
    "content ?im = c" "timestamp ?im = messageTimestamp msg"
    by (simp_all add: or_empty_case)
  have n: "c \<noteq> []" by (rule extract_nonempty [OF assms(3)])
  from u m g f n show ?thesis by blast
qed

text \<open>
  A text whose key has no id and no address, and a text in a group.
\<close>

theorem inbound_message_total_witness:
  "messages_upsert ''notify'' [bare_text] =
     [\<lparr> im_id = [], sender = [], pn = [], content = ''hello'',
        timestamp = None, isGroup = False \<rparr>]
   \<and> messages_upsert ''notify'' [group_text] =
     [\<lparr> im_id = ''3EB0A2'', sender = ''120363041@g.us'',
        pn = ''4912345@s.whatsapp.net'', content = ''hello'',
        timestamp = Some 1700000000, isGroup = True \<rparr>]"
proof -
  have b: "\<not> truthy_bool (fromMe (key bare_text))"
    "remoteJid (key bare_text) \<noteq> Some ''status@broadcast''"
    "extractMessageContent bare_text = Some ''hello''"
    by (simp_all add: bare_text_def empty_content_def truthy_bool_def
        extractMessageContent_def truthy_def)
  have g: "\<not> truthy_bool (fromMe (key group_text))"
    "remoteJid (key group_text) \<noteq> Some ''status@broadcast''"
    "extractMessageContent group_text = Some ''hello''"
    by (simp_all add: group_text_def empty_content_def truthy_bool_def
        extractMessageContent_def truthy_def)
  have kb: "key_id (key bare_text) = None" "remoteJid (key bare_text) = None"
    "remoteJidAlt (key bare_text) = None" "messageTimestamp bare_text = None"
    by (simp_all add: bare_text_def)
  have kg: "key_id (key group_text) = Some ''3EB0A2''"
    "remoteJid (key group_text) = Some (''120363041'' @ ''@g.us'')"
    "remoteJidAlt (key group_text) = Some ''4912345@s.whatsapp.net''"
    "messageTimestamp group_text = Some 1700000000"
    by (simp_all add: group_text_def)
  from inbound_message_total [OF b] obtain im where
    im: "messages_upsert ''notify'' [bare_text] = [im]" "im_id im = []" "sender im = []"
      "pn im = []" "\<not> isGroup im" "content im = ''hello''" "timestamp im = None"
    unfolding kb by auto
  from inbound_message_total [OF g] obtain gm where
    gm: "messages_upsert ''notify'' [group_text] = [gm]" "im_id gm = ''3EB0A2''"
      "sender gm = ''120363041@g.us''" "pn gm = ''4912345@s.whatsapp.net''"
      "isGroup gm" "content gm = ''hello''" "timestamp gm = Some 1700000000"
    unfolding kg by auto
  have "im = \<lparr> im_id = [], sender = [], pn = [], content = ''hello'',
        timestamp = None, isGroup = False \<rparr>"
    using im(2-7) by (cases im) simp
  moreover have "gm = \<lparr> im_id = ''3EB0A2'', sender = ''120363041@g.us'',
        pn = ''4912345@s.whatsapp.net'', content = ''hello'',
        timestamp = Some 1700000000, isGroup = True \<rparr>"
    using gm(2-7) by (cases gm) simp
  ultimately show ?thesis using im(1) gm(1) by simp
qed

section \<open>Properties of the session\<close>

lemma retry_guard_cases:
  "retry_guard c \<longleftrightarrow>
     (\<not> reconnecting c \<and> timers c = [])
     \<or> (reconnecting c \<and> (\<exists>t. timers c = [t] \<and> now c < t \<and> t \<le> now c + 5000))"
  by (cases "timers c") (auto simp: retry_guard_def)

lemma retry_guard_new: "retry_guard new_client"
  by (simp add: retry_guard_cases new_client_def)

lemma retry_guard_connect: "retry_guard c \<Longrightarrow> retry_guard (connect c)"
  by (simp add: retry_guard_cases connect_def)

lemma retry_guard_disconnect: "retry_guard c \<Longrightarrow> retry_guard (disconnect c)"
  by (cases "sock c") (simp_all add: retry_guard_cases disconnect_def)

lemma retry_guard_emit: "retry_guard (emit cb c) = retry_guard c"
  by (simp add: retry_guard_cases emit_def)

lemma emit_fields [simp]:
  "timers (emit cb c) = timers c" "reconnecting (emit cb c) = reconnecting c"
  "now (emit cb c) = now c" "created (emit cb c) = created c"
  "sock (emit cb c) = sock c" "ended (emit cb c) = ended c"
  "emitted (emit cb c) = emitted c @ [cb]"
  by (simp_all add: emit_def)

lemma if_emit_fields [simp]:
  "timers (if P then emit cb c else c) = timers c"
  "reconnecting (if P then emit cb c else c) = reconnecting c"
  "now (if P then emit cb c else c) = now c"
  "created (if P then emit cb c else c) = created c"
  "sock (if P then emit cb c else c) = sock c"
  "ended (if P then emit cb c else c) = ended c"
  by simp_all

lemma retry_guard_update:
  assumes "retry_guard c" shows "retry_guard (on_connection_update u c)"
  using assms unfolding on_connection_update_def Let_def
  by (auto simp: retry_guard_cases)

lemma retry_guard_advance:
  assumes "retry_guard c" shows "retry_guard (advance d c)"
proof (cases "reconnecting c")
  case False
  with assms have "timers c = []" by (simp add: retry_guard_cases)
  with False show ?thesis by (simp add: advance_def retry_guard_cases)
next
  case True
  with assms obtain t where t: "timers c = [t]" "now c < t" "t \<le> now c + 5000"
    by (auto simp: retry_guard_cases)
  show ?thesis
  proof (cases "t \<le> now c + d")
    case True
    then show ?thesis using t
      by (simp add: advance_def retry_guard_cases timer_callback_def connect_def)
  next
    case False
    then show ?thesis using t True
      by (simp add: advance_def retry_guard_cases)
  qed
qed

lemma retry_guard_step: "retry_guard c \<Longrightarrow> retry_guard (step e c)"
  by (cases e)
    (simp_all add: retry_guard_connect retry_guard_disconnect retry_guard_update
      retry_guard_advance, simp add: retry_guard_cases)

lemma retry_guard_run: "retry_guard c \<Longrightarrow> retry_guard (run c es)"
  by (induction es arbitrary: c) (simp_all add: retry_guard_step)

lemma run_append: "run c (xs @ ys) = run (run c xs) ys"
  by (induction xs arbitrary: c) simp_all

lemma reachable_guard: "retry_guard (run new_client evs)"
  by (rule retry_guard_run [OF retry_guard_new])

lemma guard_at_most_one: "retry_guard c \<Longrightarrow> length (timers c) \<le> 1"
  by (auto simp: retry_guard_cases)

lemma update_pending_keeps_timers:
  "reconnecting c \<Longrightarrow> timers (on_connection_update u c) = timers c"
  by (simp add: on_connection_update_def Let_def)

lemma transient_closure_fresh:
  assumes "connection u = Some ConnClose" "statusCode u \<noteq> Some loggedOut"
    "\<not> reconnecting c"
  shows "timers (on_connection_update u c) = timers c @ [now c + 5000]"
    "reconnecting (on_connection_update u c)"
    "now (on_connection_update u c) = now c"
    "created (on_connection_update u c) = created c"
  using assms by (simp_all add: on_connection_update_def Let_def)

lemma step_update_created: "0 < created c \<Longrightarrow> step (ConnectionUpdate u) c = on_connection_update u c"
  by simp

lemma advance_not_due:
  "timers c = [t] \<Longrightarrow> now c + d < t \<Longrightarrow> advance d c = c \<lparr> now := now c + d \<rparr>"
  by (simp add: advance_def)

lemma advance_due:
  "timers c = [t] \<Longrightarrow> t \<le> now c + d \<Longrightarrow>
   advance d c = timer_callback (c \<lparr> now := now c + d, timers := [] \<rparr>)"
  by (simp add: advance_def)

lemma advance_idle:
  "timers c = [] \<Longrightarrow> advance d c = c \<lparr> now := now c + d \<rparr>"
  by (simp add: advance_def)

lemma two_closures_one_timer:
  assumes c: "0 < created c" "timers c = []" "\<not> reconnecting c"
    and u1: "connection u1 = Some ConnClose" "statusCode u1 \<noteq> Some loggedOut"
    and u2: "connection u2 = Some ConnClose" "statusCode u2 \<noteq> Some loggedOut"
    and d: "d < 5000"
  shows "timers (run c [ConnectionUpdate u1, Advance d, ConnectionUpdate u2]) = [now c + 5000]"
    and "created (run c [ConnectionUpdate u1, Advance d, ConnectionUpdate u2]) = created c"
    and "timers (run c [ConnectionUpdate u1, Advance d, ConnectionUpdate u2, Advance (5000 - d)]) = []"
    and "created (run c [ConnectionUpdate u1, Advance d, ConnectionUpdate u2, Advance (5000 - d)])
           = Suc (created c)"
proof -
  let ?c1 = "on_connection_update u1 c"
  have f1: "timers ?c1 = [now c + 5000]" "reconnecting ?c1" "now ?c1 = now c"
    "created ?c1 = created c"
    using transient_closure_fresh [OF u1 c(3)] c(2) by simp_all
  let ?c2 = "advance d ?c1"
  have a: "?c2 = ?c1 \<lparr> now := now c + d \<rparr>"
    using advance_not_due [of ?c1 "now c + 5000" d] f1 d by simp
  have f2: "timers ?c2 = [now c + 5000]" "reconnecting ?c2" "now ?c2 = now c + d"
    "created ?c2 = created c"
    unfolding a using f1 by simp_all
  let ?c3 = "on_connection_update u2 ?c2"
  have f3: "timers ?c3 = [now c + 5000]" "now ?c3 = now c + d" "created ?c3 = created c"
    using update_pending_keeps_timers [OF f2(2), of u2] f2
    by (simp_all add: on_connection_update_def Let_def)
  have r3: "run c [ConnectionUpdate u1, Advance d, ConnectionUpdate u2] = ?c3"
    using c(1) f1(4) f2(4) by simp
  show "timers (run c [ConnectionUpdate u1, Advance d, ConnectionUpdate u2]) = [now c + 5000]"
    unfolding r3 by (rule f3(1))
  show "created (run c [ConnectionUpdate u1, Advance d, ConnectionUpdate u2]) = created c"
    unfolding r3 by (rule f3(3))
  have r4: "run c [ConnectionUpdate u1, Advance d, ConnectionUpdate u2, Advance (5000 - d)]
      = advance (5000 - d) ?c3"
    using c(1) f1(4) f2(4) by simp
  have a4: "advance (5000 - d) ?c3
      = timer_callback (?c3 \<lparr> now := now ?c3 + (5000 - d), timers := [] \<rparr>)"
    using advance_due [of ?c3 "now c + 5000" "5000 - d"] f3 d by simp
  show "timers (run c [ConnectionUpdate u1, Advance d, ConnectionUpdate u2, Advance (5000 - d)]) = []"
    unfolding r4 a4 by (simp add: timer_callback_def connect_def)
  show "created (run c [ConnectionUpdate u1, Advance d, ConnectionUpdate u2, Advance (5000 - d)])
           = Suc (created c)"
    unfolding r4 a4 using f3(3) by (simp add: timer_callback_def connect_def)
qed

text \<open>
  Claim C2. After any sequence of calls, upstream events and passing of time,
  at most one reconnect timer is pending. A connection update that arrives
  while a timer is pending schedules no other. Two closures that are not
  logouts, less than five seconds apart, on a client with a socket and
  nothing pending, leave exactly one timer, due five seconds after the first;
  when it fires, exactly one new upstream socket is made.
\<close>

theorem single_reconnect_timer:
  "length (timers (run new_client evs)) \<le> 1
   \<and> (timers (run new_client evs) \<noteq> [] \<longrightarrow>
        timers (run new_client (evs @ [ConnectionUpdate u])) = timers (run new_client evs))
   \<and> (0 < created c \<and> timers c = [] \<and> \<not> reconnecting c
        \<and> is_transient_closure (ConnectionUpdate u1)
        \<and> is_transient_closure (ConnectionUpdate u2) \<and> d < 5000 \<longrightarrow>
        timers (run c [ConnectionUpdate u1, Advance d, ConnectionUpdate u2]) = [now c + 5000]
        \<and> created (run c [ConnectionUpdate u1, Advance d, ConnectionUpdate u2]) = created c
        \<and> timers (run c [ConnectionUpdate u1, Advance d, ConnectionUpdate u2,
                          Advance (5000 - d)]) = []
        \<and> created (run c [ConnectionUpdate u1, Advance d, ConnectionUpdate u2,
                           Advance (5000 - d)]) = Suc (created c))"
proof (intro conjI impI)
  let ?s = "run new_client evs"
  have g: "retry_guard ?s" by (rule reachable_guard)
  show "length (timers ?s) \<le> 1" by (rule guard_at_most_one [OF g])
  show "timers (run new_client (evs @ [ConnectionUpdate u])) = timers ?s"
    if "timers ?s \<noteq> []"
  proof -
    from that g have "reconnecting ?s" by (auto simp: retry_guard_cases)
    then show ?thesis
      by (simp add: run_append update_pending_keeps_timers)
  qed
next
  assume h: "0 < created c \<and> timers c = [] \<and> \<not> reconnecting c
        \<and> is_transient_closure (ConnectionUpdate u1)
        \<and> is_transient_closure (ConnectionUpdate u2) \<and> d < 5000"
  then have u: "connection u1 = Some ConnClose" "statusCode u1 \<noteq> Some loggedOut"
    "connection u2 = Some ConnClose" "statusCode u2 \<noteq> Some loggedOut"
    by (simp_all add: is_transient_closure_def)
  from h have c: "0 < created c" "timers c = []" "\<not> reconnecting c" "d < 5000" by simp_all
  note r = two_closures_one_timer [OF c(1-3) u c(4)]
  show "timers (run c [ConnectionUpdate u1, Advance d, ConnectionUpdate u2]) = [now c + 5000]"
    by (rule r(1))
  show "created (run c [ConnectionUpdate u1, Advance d, ConnectionUpdate u2]) = created c"
    by (rule r(2))
  show "timers (run c [ConnectionUpdate u1, Advance d, ConnectionUpdate u2,
                          Advance (5000 - d)]) = []"
    by (rule r(3))
  show "created (run c [ConnectionUpdate u1, Advance d, ConnectionUpdate u2,
                           Advance (5000 - d)]) = Suc (created c)"
    by (rule r(4))
qed

lemmas session_eval =
  new_client_def connect_def disconnect_def on_connection_update_def closure_def
  opened_def emit_def truthy_def loggedOut_def advance_def timer_callback_def Let_def


text \<open>
  Two closures, with status 428 and 408, two seconds apart.
\<close>

theorem single_reconnect_timer_witness:
  "timers (run new_client
      [Connect, ConnectionUpdate opened, ConnectionUpdate (closure (Some 428))]) = [5000]
   \<and> timers (run new_client
      [Connect, ConnectionUpdate opened, ConnectionUpdate (closure (Some 428)),
       ConnectionUpdate (closure (Some 408))]) = [5000]
   \<and> created (run new_client [Connect, ConnectionUpdate opened]) = 1
   \<and> timers (run (run new_client [Connect, ConnectionUpdate opened])
        [ConnectionUpdate (closure (Some 428)), Advance 2000,
         ConnectionUpdate (closure (Some 408))]) = [5000]
   \<and> created (run (run new_client [Connect, ConnectionUpdate opened])
        [ConnectionUpdate (closure (Some 428)), Advance 2000,
         ConnectionUpdate (closure (Some 408)), Advance 3000]) = 2"
  using single_reconnect_timer
    [of "[Connect, ConnectionUpdate opened, ConnectionUpdate (closure (Some 428))]"
        "closure (Some 408)" "run new_client [Connect, ConnectionUpdate opened]"
        "closure (Some 428)" "closure (Some 408)" 2000]
  by (simp add: session_eval is_transient_closure_def)

lemma quiet_step:
  assumes "timers c = []" "quiet e"
  shows "timers (step e c) = [] \<and> created (step e c) = created c"
proof (cases e)
  case Connect
  with assms show ?thesis by (simp add: quiet_def)
next
  case Disconnect
  with assms show ?thesis by (cases "sock c") (simp_all add: disconnect_def)
next
  case (ConnectionUpdate u)
  with assms have "\<not> (connection u = Some ConnClose \<and> statusCode u \<noteq> Some loggedOut)"
    by (simp add: quiet_def is_transient_closure_def)
  with assms ConnectionUpdate show ?thesis
    by (auto simp: on_connection_update_def Let_def)
next
  case (MessagesUpsert ty ms)
  with assms show ?thesis by simp
next
  case (Advance d)
  with assms show ?thesis by (simp add: advance_idle)
qed

lemma quiet_run:
  "timers c = [] \<Longrightarrow> list_all quiet es \<Longrightarrow>
   timers (run c es) = [] \<and> created (run c es) = created c"
proof (induction es arbitrary: c)
  case Nil
  then show ?case by simp
next
  case (Cons e es)
  from Cons.prems have q: "quiet e" "list_all quiet es" by simp_all
  from quiet_step [OF Cons.prems(1) q(1)]
  have s: "timers (step e c) = []" "created (step e c) = created c" by simp_all
  from Cons.IH [OF s(1) q(2)] s(2) show ?case by simp
qed

lemma logout_closure_fields:
  assumes "connection u = Some ConnClose" "statusCode u = Some loggedOut"
  shows "timers (on_connection_update u c) = timers c"
    "reconnecting (on_connection_update u c) = reconnecting c"
    "created (on_connection_update u c) = created c"
    "sock (on_connection_update u c) = sock c"
    "emitted (on_connection_update u c) =
       emitted c @ (if truthy (qr u) then [OnQR (the (qr u))] else [])
                 @ [OnStatus ''disconnected'']"
  using assms by (simp_all add: on_connection_update_def Let_def)

lemma transient_closure_reachable:
  assumes g: "retry_guard c"
    and u: "connection u = Some ConnClose" "statusCode u \<noteq> Some loggedOut"
  shows "length (timers (on_connection_update u c)) = 1"
    and "now c < hd (timers (on_connection_update u c))"
    and "hd (timers (on_connection_update u c)) \<le> now c + 5000"
    and "timers c = [] \<longrightarrow> timers (on_connection_update u c) = [now c + 5000]"
    and "created (advance 5000 (on_connection_update u c)) = Suc (created c)"
    and "timers (advance 5000 (on_connection_update u c)) = []"
proof -
  let ?c = "on_connection_update u c"
  have n: "now ?c = now c" and k: "created ?c = created c"
    by (simp_all add: on_connection_update_def Let_def)
  have "\<exists>t. timers ?c = [t] \<and> now c < t \<and> t \<le> now c + 5000
     \<and> (timers c = [] \<longrightarrow> t = now c + 5000)"
  proof (cases "reconnecting c")
    case True
    with g obtain t where "timers c = [t]" "now c < t" "t \<le> now c + 5000"
      by (auto simp: retry_guard_cases)
    with update_pending_keeps_timers [OF True, of u] show ?thesis by simp
  next
    case False
    with g have "timers c = []" by (simp add: retry_guard_cases)
    with transient_closure_fresh(1) [OF u False] show ?thesis by simp
  qed
  then obtain t where t: "timers ?c = [t]" "now c < t" "t \<le> now c + 5000"
    "timers c = [] \<longrightarrow> t = now c + 5000" by blast
  show "length (timers ?c) = 1" "now c < hd (timers ?c)" "hd (timers ?c) \<le> now c + 5000"
    "timers c = [] \<longrightarrow> timers ?c = [now c + 5000]"
    using t by simp_all
  have a: "advance 5000 ?c = timer_callback (?c \<lparr> now := now ?c + 5000, timers := [] \<rparr>)"
    using advance_due [of ?c t 5000] t n by simp
  show "created (advance 5000 ?c) = Suc (created c)" "timers (advance 5000 ?c) = []"
    unfolding a using k by (simp_all add: timer_callback_def connect_def)
qed

lemma last_status_snoc [simp]: "last_status (cbs @ [OnStatus s]) = Some s"
  by (induction cbs) simp_all

text \<open>
  Claim C3, amended. The handler of a logout closure schedules no reconnect
  timer, leaves a pending one as it is, and reports \<open>disconnected\<close>, which
  the server writes as a status frame to every open controller connection.
  When no timer is pending at that moment, none is pending after any further
  events that are neither a call of \<open>connect\<close> nor a closure that is not a
  logout, and no upstream socket is made until \<open>connect\<close> is called. After
  a closure that is not a logout, in any state the client can reach, exactly
  one timer is pending, due at most five seconds after the closure and
  exactly five seconds after it when none was pending; five seconds later the
  reconnect has made exactly one new upstream socket.
\<close>

theorem closure_classification:
  "(connection u = Some ConnClose \<and> statusCode u = Some loggedOut \<longrightarrow>
      timers (on_connection_update u c) = timers c
      \<and> reconnecting (on_connection_update u c) = reconnecting c
      \<and> created (on_connection_update u c) = created c
      \<and> emitted (on_connection_update u c) =
          emitted c @ (if truthy (qr u) then [OnQR (the (qr u))] else [])
                    @ [OnStatus ''disconnected'']
      \<and> snd (broadcast srv (wire (OnStatus ''disconnected''))) =
          Serialize (StatusObj ''disconnected'') #
          map (\<lambda>ws. WsSend ws (Frame (StatusObj ''disconnected'')))
            (filter (\<lambda>ws. readyState srv ws = OPEN) (clients srv))
      \<and> (timers c = [] \<and> list_all quiet es \<longrightarrow>
           timers (run (on_connection_update u c) es) = []
           \<and> created (run (on_connection_update u c) es) = created c
           \<and> created (run (on_connection_update u c) (es @ [Connect])) = Suc (created c)))
   \<and> (connection v = Some ConnClose \<and> statusCode v \<noteq> Some loggedOut \<longrightarrow>
        length (timers (on_connection_update v (run new_client evs))) = 1
        \<and> now (run new_client evs) < hd (timers (on_connection_update v (run new_client evs)))
        \<and> hd (timers (on_connection_update v (run new_client evs)))
             \<le> now (run new_client evs) + 5000
        \<and> (timers (run new_client evs) = [] \<longrightarrow>
             timers (on_connection_update v (run new_client evs))
               = [now (run new_client evs) + 5000])
        \<and> created (advance 5000 (on_connection_update v (run new_client evs)))
             = Suc (created (run new_client evs))
        \<and> timers (advance 5000 (on_connection_update v (run new_client evs))) = [])"
proof (intro conjI impI)
  assume u: "connection u = Some ConnClose \<and> statusCode u = Some loggedOut"
  note f = logout_closure_fields [OF conjunct1 [OF u] conjunct2 [OF u], of c]
  show "timers (on_connection_update u c) = timers c" by (rule f(1))
  show "reconnecting (on_connection_update u c) = reconnecting c" by (rule f(2))
  show "created (on_connection_update u c) = created c" by (rule f(3))
  show "emitted (on_connection_update u c) =
          emitted c @ (if truthy (qr u) then [OnQR (the (qr u))] else [])
                    @ [OnStatus ''disconnected'']" by (rule f(5))
  show "snd (broadcast srv (wire (OnStatus ''disconnected''))) =
          Serialize (StatusObj ''disconnected'') #
          map (\<lambda>ws. WsSend ws (Frame (StatusObj ''disconnected'')))
            (filter (\<lambda>ws. readyState srv ws = OPEN) (clients srv))"
    by (simp add: broadcast_def)
  assume q: "timers c = [] \<and> list_all quiet es"
  then have t: "timers (on_connection_update u c) = []" using f(1) by simp
  note r = quiet_run [OF t conjunct2 [OF q]]
  show "timers (run (on_connection_update u c) es) = []" using r by simp
  show "created (run (on_connection_update u c) es) = created c" using r f(3) by simp
  show "created (run (on_connection_update u c) (es @ [Connect])) = Suc (created c)"
    using r f(3) by (simp add: run_append connect_def)
next
  assume v: "connection v = Some ConnClose \<and> statusCode v \<noteq> Some loggedOut"
  note r = transient_closure_reachable [OF reachable_guard conjunct1 [OF v] conjunct2 [OF v], of evs]
  show "length (timers (on_connection_update v (run new_client evs))) = 1" by (rule r(1))
  show "now (run new_client evs) < hd (timers (on_connection_update v (run new_client evs)))"
    by (rule r(2))
  show "hd (timers (on_connection_update v (run new_client evs)))
             \<le> now (run new_client evs) + 5000" by (rule r(3))
  show "timers (on_connection_update v (run new_client evs))
               = [now (run new_client evs) + 5000]" if "timers (run new_client evs) = []"
    using r(4) that by simp
  show "created (advance 5000 (on_connection_update v (run new_client evs)))
             = Suc (created (run new_client evs))" by (rule r(5))
  show "timers (advance 5000 (on_connection_update v (run new_client evs))) = []" by (rule r(6))
qed

text \<open>
  A logout (status 401) of a connected session, followed by a minute without
  a call of \<open>connect\<close>; and a closure with status 428.
\<close>

theorem closure_classification_witness:
  "statusCode (closure (Some 401)) = Some loggedOut
   \<and> emitted (on_connection_update (closure (Some 401))
        (run new_client [Connect, ConnectionUpdate opened]))
       = [OnStatus ''connected'', OnStatus ''disconnected'']
   \<and> created (run (on_connection_update (closure (Some 401))
        (run new_client [Connect, ConnectionUpdate opened]))
        [Advance 60000, MessagesUpsert ''notify'' [], Disconnect]) = 1
   \<and> created (run (on_connection_update (closure (Some 401))
        (run new_client [Connect, ConnectionUpdate opened]))
        [Advance 60000, MessagesUpsert ''notify'' [], Disconnect, Connect]) = 2
   \<and> timers (on_connection_update (closure (Some 428))
        (run new_client [Connect, ConnectionUpdate opened])) = [5000]
   \<and> created (advance 5000 (on_connection_update (closure (Some 428))
        (run new_client [Connect, ConnectionUpdate opened]))) = 2"
  using closure_classification
    [of "closure (Some 401)" "run new_client [Connect, ConnectionUpdate opened]"
        three_and_one "[Advance 60000, MessagesUpsert ''notify'' [], Disconnect]"
        "closure (Some 428)" "[Connect, ConnectionUpdate opened]"]
  by (simp add: session_eval quiet_def is_transient_closure_def)

text \<open>
  Claim C3 as stated fails: a logout closure that arrives while the reconnect
  of an earlier closure is pending does not cancel it, and five seconds later
  a new upstream socket is made without any call of \<open>connect\<close> from outside.
\<close>

theorem pending_retry_survives_logout_counterexample:
  "statusCode (closure (Some 401)) = Some loggedOut
   \<and> created (run new_client
        [Connect, ConnectionUpdate opened, ConnectionUpdate (closure (Some 428)),
         ConnectionUpdate (closure (Some 401))]) = 1
   \<and> created (run new_client
        [Connect, ConnectionUpdate opened, ConnectionUpdate (closure (Some 428)),
         ConnectionUpdate (closure (Some 401)), Advance 5000]) = 2
   \<and> sock (run new_client
        [Connect, ConnectionUpdate opened, ConnectionUpdate (closure (Some 428)),
         ConnectionUpdate (closure (Some 401)), Advance 5000]) = Some 1"
  by (simp add: session_eval)

text \<open>
  Claim C8, amended. \<open>connect\<close> tests nothing: every call, also on a
  connected session, makes one more upstream socket and stores it in place of
  the previous one, which is not ended. The call itself reports no status and
  leaves the retry flag and the timers alone; \<open>connected\<close> is reported again
  when the new socket opens.
\<close>

theorem connect_unguarded:
  "created (connect c) = Suc (created c)
   \<and> sock (connect c) = Some (created c)
   \<and> ended (connect c) = ended c
   \<and> emitted (connect c) = emitted c
   \<and> timers (connect c) = timers c
   \<and> reconnecting (connect c) = reconnecting c
   \<and> emitted (on_connection_update opened (connect c)) = emitted c @ [OnStatus ''connected'']"
  by (simp add: connect_def on_connection_update_def opened_def truthy_def emit_def)

text \<open>
  Claim C8 as stated fails: on a session that has reported \<open>connected\<close>, a
  second \<open>connect\<close> makes a second upstream socket beside the first, and
  its opening reports \<open>connected\<close> a second time.
\<close>

theorem connect_twice_counterexample:
  "last_status (emitted (run new_client [Connect, ConnectionUpdate opened])) = Some ''connected''
   \<and> created (run new_client [Connect, ConnectionUpdate opened]) = 1
   \<and> created (run new_client [Connect, ConnectionUpdate opened, Connect]) = 2
   \<and> ended (run new_client [Connect, ConnectionUpdate opened, Connect]) = []
   \<and> emitted (run new_client [Connect, ConnectionUpdate opened, Connect]) = [OnStatus ''connected'']
   \<and> emitted (run new_client [Connect, ConnectionUpdate opened, Connect, ConnectionUpdate opened])
        = [OnStatus ''connected'', OnStatus ''connected'']"
  by (simp add: session_eval)

lemma sendMessage_no_sock:
  "sock c = None \<Longrightarrow> sendMessage c up to txt = (Inl (JsError ''Error'' ''Not connected''), [])"
  by (simp add: sendMessage_def)

lemma sendMessage_sock:
  "sock c = Some k \<Longrightarrow> sendMessage c up to txt =
     ((case up k to txt of Some e \<Rightarrow> Inl e | None \<Rightarrow> Inr ()), [UpstreamSend k to txt])"
  by (cases "up k to txt") (simp_all add: sendMessage_def)

lemma get_prop_not_null: "get_prop cmd k = Some v \<Longrightarrow> cmd \<noteq> JNull"
  by (cases cmd) simp_all

lemma on_message_send_no_sock:
  assumes "get_prop cmd ''type'' = Some (JStr ''send'')" "wa srv = Some c" "sock c = None"
  shows "on_message srv up ws (Parsed cmd) = ws_send ws (ErrorObj ''Error: Not connected'')"
  using assms get_prop_not_null [OF assms(1)]
  by (simp add: on_message_def handleCommand_def sendMessage_no_sock)

lemma on_message_send_sock:
  assumes "get_prop cmd ''type'' = Some (JStr ''send'')" "wa srv = Some c" "sock c = Some k"
  shows "on_message srv up ws (Parsed cmd) =
     UpstreamSend k (get_prop cmd ''to'') (get_prop cmd ''text'') #
     ws_send ws (case up k (get_prop cmd ''to'') (get_prop cmd ''text'') of
                   None \<Rightarrow> SentObj (get_prop cmd ''to'')
                 | Some e \<Rightarrow> ErrorObj (error_string e))"
  using assms get_prop_not_null [OF assms(1)]
  by (cases "up k (get_prop cmd ''to'') (get_prop cmd ''text'')")
    (simp_all add: on_message_def handleCommand_def sendMessage_sock)

lemma update_keeps_sock: "sock (on_connection_update u c) = sock c"
  by (simp add: on_connection_update_def Let_def)

text \<open>
  Claim C1, amended. \<open>sendMessage\<close> fails with \<open>Not connected\<close> exactly when
  the client holds no socket object, which is the case before the first
  \<open>connect\<close> and after \<open>disconnect\<close>; a connection update, a closure
  included, leaves the socket object in place. With a socket object the call
  goes to the upstream library, whatever the connection's state, and returns
  its outcome. The server answers a \<open>send\<close> command on the requesting
  connection only: with the error frame \<open>Error: Not connected\<close> in the first
  case and \<open>WhatsApp not connected\<close> when it has no client, and otherwise
  with \<open>sent\<close> or with the upstream's error.
\<close>

theorem send_guard:
  "(sock c = None \<longrightarrow>
      sendMessage c up to txt = (Inl (JsError ''Error'' ''Not connected''), []))
   \<and> (sock c = Some k \<longrightarrow>
      sendMessage c up to txt =
        ((case up k to txt of Some e \<Rightarrow> Inl e | None \<Rightarrow> Inr ()), [UpstreamSend k to txt]))
   \<and> sock new_client = None
   \<and> sock (connect c) \<noteq> None
   \<and> sock (on_connection_update u c) = sock c
   \<and> sock (disconnect c) = None
   \<and> (get_prop cmd ''type'' = Some (JStr ''send'') \<and> wa srv = Some c \<and> sock c = None \<longrightarrow>
        on_message srv up ws (Parsed cmd) = ws_send ws (ErrorObj ''Error: Not connected''))
   \<and> (get_prop cmd ''type'' = Some (JStr ''send'') \<and> wa srv = Some c \<and> sock c = Some k \<longrightarrow>
        on_message srv up ws (Parsed cmd) =
          UpstreamSend k (get_prop cmd ''to'') (get_prop cmd ''text'') #
          ws_send ws (case up k (get_prop cmd ''to'') (get_prop cmd ''text'') of
                        None \<Rightarrow> SentObj (get_prop cmd ''to'')
                      | Some e \<Rightarrow> ErrorObj (error_string e)))
   \<and> (get_prop cmd ''type'' = Some (JStr ''send'') \<and> wa srv = None \<longrightarrow>
        on_message srv up ws (Parsed cmd) = ws_send ws (ErrorObj ''WhatsApp not connected''))"
proof (intro conjI impI)
  show "sendMessage c up to txt = (Inl (JsError ''Error'' ''Not connected''), [])"
    if "sock c = None" using that by (rule sendMessage_no_sock)
  show "sendMessage c up to txt =
        ((case up k to txt of Some e \<Rightarrow> Inl e | None \<Rightarrow> Inr ()), [UpstreamSend k to txt])"
    if "sock c = Some k" using that by (rule sendMessage_sock)
  show "sock new_client = None" by (simp add: new_client_def)
  show "sock (connect c) \<noteq> None" by (simp add: connect_def)
  show "sock (on_connection_update u c) = sock c" by (rule update_keeps_sock)
  show "sock (disconnect c) = None" by (cases "sock c") (simp_all add: disconnect_def)
  show "on_message srv up ws (Parsed cmd) = ws_send ws (ErrorObj ''Error: Not connected'')"
    if "get_prop cmd ''type'' = Some (JStr ''send'') \<and> wa srv = Some c \<and> sock c = None"
    using that by (simp add: on_message_send_no_sock)
  show "on_message srv up ws (Parsed cmd) =
          UpstreamSend k (get_prop cmd ''to'') (get_prop cmd ''text'') #
          ws_send ws (case up k (get_prop cmd ''to'') (get_prop cmd ''text'') of
                        None \<Rightarrow> SentObj (get_prop cmd ''to'')
                      | Some e \<Rightarrow> ErrorObj (error_string e))"
    if "get_prop cmd ''type'' = Some (JStr ''send'') \<and> wa srv = Some c \<and> sock c = Some k"
    using that by (simp add: on_message_send_sock)
  show "on_message srv up ws (Parsed cmd) = ws_send ws (ErrorObj ''WhatsApp not connected'')"
    if "get_prop cmd ''type'' = Some (JStr ''send'') \<and> wa srv = None"
    using that get_prop_not_null [of cmd "''type''" "JStr ''send''"]
    by (simp add: on_message_def handleCommand_def)
qed

text \<open>
  A \<open>send\<close> command before \<open>connect\<close> was called, and one after the
  upstream closed the session.
\<close>

theorem send_guard_witness:
  "on_message fresh_server accepting 1 (Parsed send_cmd)
     = [Serialize (ErrorObj ''Error: Not connected''),
        WsSend 1 (Frame (ErrorObj ''Error: Not connected''))]
   \<and> on_message closed_server accepting 1 (Parsed send_cmd)
     = [UpstreamSend 0 (Some (JStr ''4912345@s.whatsapp.net'')) (Some (JStr ''hello'')),
        Serialize (SentObj (Some (JStr ''4912345@s.whatsapp.net''))),
        WsSend 1 (Frame (SentObj (Some (JStr ''4912345@s.whatsapp.net''))))]"
  using send_guard [of new_client accepting None None 0 "opened" send_cmd fresh_server 1]
    send_guard [of closed_session accepting None None 0 "opened" send_cmd closed_server 1]
  by (simp add: session_eval fresh_server_def closed_server_def closed_session_def
      send_cmd_def accepting_def ws_send_def)

text \<open>
  Claim C1 as stated fails: after the upstream has closed the connection and
  \<open>disconnected\<close> was reported, a send still goes to the upstream library,
  and is acknowledged with \<open>sent\<close> when the library accepts it.
\<close>

theorem send_while_disconnected_counterexample:
  "last_status (emitted closed_session) = Some ''disconnected''
   \<and> sendMessage closed_session accepting (Some (JStr ''4912345@s.whatsapp.net''))
        (Some (JStr ''hello''))
      = (Inr (), [UpstreamSend 0 (Some (JStr ''4912345@s.whatsapp.net''))
                    (Some (JStr ''hello''))])
   \<and> on_message closed_server accepting 1 (Parsed send_cmd)
     = [UpstreamSend 0 (Some (JStr ''4912345@s.whatsapp.net'')) (Some (JStr ''hello'')),
        Serialize (SentObj (Some (JStr ''4912345@s.whatsapp.net''))),
        WsSend 1 (Frame (SentObj (Some (JStr ''4912345@s.whatsapp.net''))))]"
  by (simp add: session_eval closed_server_def closed_session_def sendMessage_def
      send_cmd_def accepting_def ws_send_def on_message_def handleCommand_def)

section \<open>Properties of the relay server\<close>

lemma writes_to_Cons_send:
  "writes_to c (WsSend c' f # effs) = (if c' = c then [f] else []) @ writes_to c effs"
  by (simp add: writes_to_def)

lemma writes_to_Cons_serialize: "writes_to c (Serialize obj # effs) = writes_to c effs"
  by (simp add: writes_to_def)

lemma writes_to_Nil: "writes_to c [] = []"
  by (simp add: writes_to_def)

lemma writes_to_absent:
  "c \<notin> set xs \<Longrightarrow> writes_to c (map (\<lambda>x. WsSend x f) xs) = []"
  by (induction xs) (simp_all add: writes_to_Nil writes_to_Cons_send)

lemma writes_to_distinct:
  "distinct xs \<Longrightarrow>
   writes_to c (map (\<lambda>x. WsSend x f) xs) = (if c \<in> set xs then [f] else [])"
proof (induction xs)
  case Nil
  show ?case by (simp add: writes_to_Nil)
next
  case (Cons x xs)
  then have d: "distinct xs" "x \<notin> set xs" by simp_all
  show ?case
  proof (cases "x = c")
    case True
    with d writes_to_absent [of c xs f] show ?thesis
      by (simp add: writes_to_Cons_send)
  next
    case False
    with Cons.IH [OF d(1)] show ?thesis by (simp add: writes_to_Cons_send)
  qed
qed

lemma serializations_sends:
  "serializations (map (\<lambda>x. WsSend x f) xs) = []"
  by (induction xs) (simp_all add: serializations_def)

lemma upstream_sends_sends:
  "upstream_sends (map (\<lambda>x. WsSend x f) xs) = []"
  by (induction xs) (simp_all add: upstream_sends_def)

text \<open>
  Claim C6. One call of \<open>broadcast\<close> serialises the event once; every
  registered connection whose transport is open is written the frame of that
  event exactly once; a connection that is not open, or not registered, is
  written nothing; nothing goes to the upstream; and the server, its set of
  connections included, is as before. The registered connections form a set,
  so no connection is listed twice.
\<close>

theorem broadcast_fanout:
  assumes "distinct (clients srv)"
  shows "fst (broadcast srv ev) = srv
    \<and> serializations (snd (broadcast srv ev)) = [ev]
    \<and> writes_to c (snd (broadcast srv ev)) =
        (if c \<in> set (clients srv) \<and> readyState srv c = OPEN then [Frame ev] else [])
    \<and> upstream_sends (snd (broadcast srv ev)) = []"
proof -
  let ?open = "filter (\<lambda>client. readyState srv client = OPEN) (clients srv)"
  have b: "broadcast srv ev = (srv, Serialize ev # map (\<lambda>client. WsSend client (Frame ev)) ?open)"
    by (simp add: broadcast_def)
  have d: "distinct ?open" using assms by simp
  have s: "serializations (Serialize ev # map (\<lambda>client. WsSend client (Frame ev)) ?open) = [ev]"
    using serializations_sends [of "Frame ev" ?open] by (simp add: serializations_def)
  have w: "writes_to c (Serialize ev # map (\<lambda>client. WsSend client (Frame ev)) ?open) =
        (if c \<in> set (clients srv) \<and> readyState srv c = OPEN then [Frame ev] else [])"
    using writes_to_distinct [OF d, of c "Frame ev"] by (simp add: writes_to_Cons_serialize)
  have u: "upstream_sends (Serialize ev # map (\<lambda>client. WsSend client (Frame ev)) ?open) = []"
    using upstream_sends_sends [of "Frame ev" ?open] by (simp add: upstream_sends_def)
  show ?thesis unfolding b using s w u by simp
qed

text \<open>
  Three open connections and a closing one: each open one receives the
  message frame once, the closing one nothing, and all four stay registered.
\<close>

theorem broadcast_fanout_witness:
  "distinct (clients three_and_one)
   \<and> serializations (snd (broadcast three_and_one (MessageObj hello_msg))) = [MessageObj hello_msg]
   \<and> writes_to 1 (snd (broadcast three_and_one (MessageObj hello_msg))) = [Frame (MessageObj hello_msg)]
   \<and> writes_to 2 (snd (broadcast three_and_one (MessageObj hello_msg))) = [Frame (MessageObj hello_msg)]
   \<and> writes_to 3 (snd (broadcast three_and_one (MessageObj hello_msg))) = [Frame (MessageObj hello_msg)]
   \<and> writes_to 4 (snd (broadcast three_and_one (MessageObj hello_msg))) = []
   \<and> clients (fst (broadcast three_and_one (MessageObj hello_msg))) = [1, 2, 3, 4]"
proof -
  have d: "distinct (clients three_and_one)" by (simp add: three_and_one_def)
  have rs: "clients three_and_one = [1, 2, 3, 4]"
    "readyState three_and_one 1 = OPEN" "readyState three_and_one 2 = OPEN"
    "readyState three_and_one 3 = OPEN" "readyState three_and_one 4 = CLOSING"
    by (simp_all add: three_and_one_def)
  show ?thesis
    using d rs broadcast_fanout [OF d, of "MessageObj hello_msg" 1]
      broadcast_fanout [OF d, of "MessageObj hello_msg" 2]
      broadcast_fanout [OF d, of "MessageObj hello_msg" 3]
      broadcast_fanout [OF d, of "MessageObj hello_msg" 4]
    by simp
qed

lemma set_add_distinct: "distinct cs \<Longrightarrow> distinct (set_add ws cs)"
  by (simp add: set_add_def)

lemma set_delete_distinct: "distinct cs \<Longrightarrow> distinct (set_delete ws cs)"
  by (simp add: set_delete_def distinct_removeAll)

lemma clients_distinct:
  assumes "distinct (clients srv)"
  shows "distinct (clients (on_connection ws srv))"
    and "distinct (clients (on_close ws srv))"
    and "distinct (clients (on_error ws srv))"
  using assms
  by (simp_all add: on_connection_def on_close_def on_error_def set_add_distinct
      set_delete_distinct)

lemma ws_send_own: "writes_to ws (ws_send ws obj) = [Frame obj]"
  by (simp add: ws_send_def writes_to_def)

lemma ws_send_others: "c \<noteq> ws \<Longrightarrow> writes_to c (ws_send ws obj) = []"
  by (simp add: ws_send_def writes_to_def)

lemma ws_send_no_upstream: "upstream_sends (ws_send ws obj) = []"
  by (simp add: ws_send_def upstream_sends_def)

lemma on_message_parse_error:
  "on_message srv up ws (ParseError msg)
     = ws_send ws (ErrorObj (error_string (JsError ''SyntaxError'' msg)))"
  by (simp add: on_message_def)

lemma on_message_null:
  "on_message srv up ws (Parsed JNull) = ws_send ws (ErrorObj (error_string null_type_error))"
  by (simp add: on_message_def handleCommand_def)

lemma join_results_isl: "isl (join_results rs) \<longleftrightarrow> list_ex isl rs"
  by (induction rs rule: join_results.induct) (auto split: sum.splits)

lemma join_results_error: "join_results rs = Inl e \<Longrightarrow> Inl e \<in> set rs"
  by (induction rs rule: join_results.induct) (auto split: sum.splits)

lemma to_string_isl: "isl (to_string v) \<longleftrightarrow> unrenderable v"
proof (induction v rule: to_string.induct)
  case (5 xs)
  have "isl (to_string (JArr xs))
      \<longleftrightarrow> isl (join_results (map (\<lambda>x. if x = JNull then Inr [] else to_string x) xs))"
    by (simp split: sum.splits)
  also have "\<dots> \<longleftrightarrow> (\<exists>x\<in>set xs. isl (if x = JNull then Inr [] else to_string x))"
    unfolding join_results_isl list_ex_iff set_map by blast
  also have "\<dots> \<longleftrightarrow> (\<exists>x\<in>set xs. unrenderable x)"
    using "5.IH" by (intro bex_cong refl) auto
  finally show ?case by (simp add: list_ex_iff)
qed simp_all

lemma to_string_error: "to_string v = Inl e \<Longrightarrow> e = primitive_type_error"
proof (induction v arbitrary: e rule: to_string.induct)
  case (5 xs)
  from "5.prems" have "join_results (map (\<lambda>x. if x = JNull then Inr [] else to_string x) xs) = Inl e"
    by (simp split: sum.splits)
  from join_results_error [OF this] obtain x where
    x: "x \<in> set xs" "(if x = JNull then Inr [] else to_string x) = Inl e" by auto
  then have "x \<noteq> JNull" "to_string x = Inl e" by (auto split: if_splits)
  with "5.IH" x(1) show ?case by blast
next
  case (6 kvs)
  then show ?case by (simp split: if_splits)
qed simp_all

lemma template_isl: "isl (template (Some v)) \<longleftrightarrow> unrenderable v"
  by (simp add: template_def to_string_isl)

lemma template_error:
  "template v = Inl e \<Longrightarrow> error_string e = ''TypeError: Cannot convert object to primitive value''"
proof (cases v)
  case None
  assume "template v = Inl e"
  with None show ?thesis by (simp add: template_def)
next
  case (Some x)
  assume "template v = Inl e"
  with Some have "to_string x = Inl e" by (simp add: template_def)
  from to_string_error [OF this] show ?thesis by (simp add: primitive_type_error_def)
qed

lemma on_message_unknown:
  "cmd \<noteq> JNull \<Longrightarrow> get_prop cmd ''type'' \<noteq> Some (JStr ''send'') \<Longrightarrow>
   on_message srv up ws (Parsed cmd)
     = ws_send ws (ErrorObj (case template (get_prop cmd ''type'') of
                               Inr ty \<Rightarrow> ''unknown command type: '' @ ty
                             | Inl e \<Rightarrow> error_string e))"
  by (cases "template (get_prop cmd ''type'')")
    (simp_all add: on_message_def handleCommand_def)

text \<open>
  Claim C7, amended. A frame that parses to a value other than \<open>null\<close>
  whose \<open>type\<close> is not the string \<open>send\<close> is answered with the error frame
  \<open>unknown command type: \<close> followed by the type as a template literal
  renders it: \<open>undefined\<close> for a missing type, a string, a number, a
  boolean and \<open>null\<close> as they are, \<open>[object Object]\<close> for an object. Where
  rendering the type throws, which is the case exactly for an object with an
  own key \<open>toString\<close> and for an array that holds such a value, the answer
  is the error frame of that \<open>TypeError\<close>. A frame that does not parse is
  answered with the error frame of the \<open>SyntaxError\<close>, and the frame
  \<open>null\<close> with that of the \<open>TypeError\<close> of reading its type. Each answer
  is one write on the connection the frame came from; no other connection is
  written to and nothing goes to the upstream.
\<close>

theorem protocol_errors:
  "on_message srv up ws (ParseError msg)
     = ws_send ws (ErrorObj (error_string (JsError ''SyntaxError'' msg)))
   \<and> on_message srv up ws (Parsed JNull)
     = ws_send ws (ErrorObj (error_string null_type_error))
   \<and> (cmd \<noteq> JNull \<and> get_prop cmd ''type'' \<noteq> Some (JStr ''send'') \<longrightarrow>
        on_message srv up ws (Parsed cmd)
          = ws_send ws (ErrorObj (case template (get_prop cmd ''type'') of
                                    Inr ty \<Rightarrow> ''unknown command type: '' @ ty
                                  | Inl e \<Rightarrow> error_string e)))
   \<and> template None = Inr ''undefined''
   \<and> template (Some (JStr t)) = Inr t
   \<and> template (Some (JNum r)) = Inr r
   \<and> template (Some (JBool b)) = Inr (if b then ''true'' else ''false'')
   \<and> template (Some JNull) = Inr ''null''
   \<and> (''toString'' \<notin> set (map fst kvs) \<longrightarrow>
        template (Some (JObj kvs)) = Inr ''[object Object]'')
   \<and> (isl (template (Some v)) \<longleftrightarrow> unrenderable v)
   \<and> (template w = Inl err \<longrightarrow>
        error_string err = ''TypeError: Cannot convert object to primitive value'')
   \<and> writes_to ws (ws_send ws obj) = [Frame obj]
   \<and> (c \<noteq> ws \<longrightarrow> writes_to c (ws_send ws obj) = [])
   \<and> upstream_sends (ws_send ws obj) = []"
  using on_message_parse_error [of srv up ws msg] on_message_null [of srv up ws]
    on_message_unknown [of cmd srv up ws] ws_send_own [of ws obj]
    ws_send_others [of c ws obj] ws_send_no_upstream [of ws obj]
    template_isl [of v] template_error [of w err]
  by (simp add: template_def)

text \<open>
  A command of type \<open>ping\<close>, a frame holding an array, a command whose type
  is an array, and one whose type is an object with an own key \<open>toString\<close>.
\<close>

theorem protocol_errors_witness:
  "on_message three_and_one accepting 2 (Parsed ping_cmd)
     = [Serialize (ErrorObj ''unknown command type: ping''),
        WsSend 2 (Frame (ErrorObj ''unknown command type: ping''))]
   \<and> on_message three_and_one accepting 2 (Parsed (JArr [JNum ''1'', JNull, JStr ''a'']))
     = [Serialize (ErrorObj ''unknown command type: undefined''),
        WsSend 2 (Frame (ErrorObj ''unknown command type: undefined''))]
   \<and> on_message three_and_one accepting 2 (Parsed list_type_cmd)
     = [Serialize (ErrorObj ''unknown command type: 1,,a,[object Object]''),
        WsSend 2 (Frame (ErrorObj ''unknown command type: 1,,a,[object Object]''))]
   \<and> on_message three_and_one accepting 2 (Parsed hidden_toString_cmd)
     = [Serialize (ErrorObj ''TypeError: Cannot convert object to primitive value''),
        WsSend 2 (Frame (ErrorObj ''TypeError: Cannot convert object to primitive value''))]
   \<and> writes_to 1 (on_message three_and_one accepting 2 (Parsed ping_cmd)) = []"
proof -
  have t: "template (get_prop ping_cmd ''type'') = Inr ''ping''"
    "template (get_prop (JArr [JNum ''1'', JNull, JStr ''a'']) ''type'') = Inr ''undefined''"
    "template (get_prop list_type_cmd ''type'') = Inr ''1,,a,[object Object]''"
    "template (get_prop hidden_toString_cmd ''type'') = Inl primitive_type_error"
    by (simp_all add: template_def ping_cmd_def list_type_cmd_def hidden_toString_cmd_def)
  have n: "ping_cmd \<noteq> JNull \<and> get_prop ping_cmd ''type'' \<noteq> Some (JStr ''send'')"
    "list_type_cmd \<noteq> JNull \<and> get_prop list_type_cmd ''type'' \<noteq> Some (JStr ''send'')"
    "hidden_toString_cmd \<noteq> JNull
       \<and> get_prop hidden_toString_cmd ''type'' \<noteq> Some (JStr ''send'')"
    by (simp_all add: ping_cmd_def list_type_cmd_def hidden_toString_cmd_def)
  show ?thesis
    using t n
      protocol_errors [where srv = three_and_one and up = accepting and ws = 2
        and cmd = ping_cmd and obj = "ErrorObj ''unknown command type: ping''" and c = 1
        and w = "get_prop hidden_toString_cmd ''type''" and err = primitive_type_error]
      protocol_errors [where srv = three_and_one and up = accepting and ws = 2
        and cmd = "JArr [JNum ''1'', JNull, JStr ''a'']"]
      protocol_errors [where srv = three_and_one and up = accepting and ws = 2
        and cmd = list_type_cmd]
      protocol_errors [where srv = three_and_one and up = accepting and ws = 2
        and cmd = hidden_toString_cmd]
    by (simp add: ws_send_def primitive_type_error_def)
qed

text \<open>
  Claim C7 as stated fails: the answer to a frame that does not parse carries
  the text of the parse error, not \<open>unknown command type: \<close>.
\<close>

theorem parse_failure_counterexample:
  "on_message three_and_one accepting 2 (ParseError ''Unexpected end of JSON input'')
     = [Serialize (ErrorObj ''SyntaxError: Unexpected end of JSON input''),
        WsSend 2 (Frame (ErrorObj ''SyntaxError: Unexpected end of JSON input''))]
   \<and> take 22 ''SyntaxError: Unexpected end of JSON input'' \<noteq> ''unknown command type: ''
   \<and> length ''unknown command type: '' = 22"
  by (simp add: on_message_def ws_send_def)


end
